theory Spec2Isabelle
  imports Complex_Main
begin

section \<open>JavaScript values at the handler's boundary\<close>

text \<open>
  The two handlers (\<^verbatim>\<open>src/unnamed/part_000\<close>, the richer variant, and
  \<^verbatim>\<open>src/modules/sendSlackNotification.ts\<close>, the plain variant) receive untyped values:
  the request body and the Slack result are whatever \<^verbatim>\<open>JSON.parse\<close> produced.

  A number is an IEEE double: a finite value (a rational; \<open>-0\<close> is identified with \<open>0\<close>,
  both are falsy and nothing here prints them), an infinity or NaN.
  A string is a \<open>char list\<close>. The characters the source tests for (\<^verbatim>\<open>[ ] ( ) h t p s : /\<close>) are
  ASCII, so the model is indifferent to how characters beyond ASCII are split into
  code units.
  An object is the list of its own members in order, each key once; \<open>map_of\<close> reads a
  member.
\<close>

datatype jsnum = Finite rat | PosInfinity | NegInfinity | NaN

datatype json =
    JNull
  | JBool bool
  | JNum jsnum
  | JStr string
  | JArr "json list"
  | JObj "(string \<times> json) list"

text \<open>
  What a property read or a variable can hold: \<open>undefined\<close>, a parsed value, or a member
  inherited from \<^verbatim>\<open>Object.prototype\<close> (named by its key). Every inherited member is a
  function, but \<^verbatim>\<open>__proto__\<close>, which reads as \<^verbatim>\<open>Object.prototype\<close> itself.
\<close>

datatype jsval = Undefined | Val json | Builtin string

text \<open>An \<^verbatim>\<open>Error\<close> object, by its name and message.\<close>

datatype js_error = JsError (err_name: string) (err_message: string)

text \<open>Truthiness, as \<^verbatim>\<open>!x\<close> tests it.\<close>

fun truthy :: "json \<Rightarrow> bool" where
  "truthy JNull = False"
| "truthy (JBool b) = b"
| "truthy (JNum n) = (n \<noteq> Finite 0 \<and> n \<noteq> NaN)"
| "truthy (JStr s) = (s \<noteq> [])"
| "truthy (JArr xs) = True"
| "truthy (JObj fs) = True"

fun truthy_opt :: "json option \<Rightarrow> bool" where
  "truthy_opt None = False"
| "truthy_opt (Some v) = truthy v"

fun truthy_string :: "string option \<Rightarrow> bool" where
  "truthy_string None = False"
| "truthy_string (Some s) = (s \<noteq> [])"

fun truthy_val :: "jsval \<Rightarrow> bool" where
  "truthy_val Undefined = False"
| "truthy_val (Val v) = truthy v"
| "truthy_val (Builtin k) = True"

text \<open>
  Reading one of the keys \<^verbatim>\<open>message\<close>, \<^verbatim>\<open>ok\<close>, \<^verbatim>\<open>error\<close>, \<^verbatim>\<open>ts\<close> of a parsed value that is
  not \<^verbatim>\<open>null\<close>. None of these keys is an index, \<^verbatim>\<open>length\<close> or a member of a built-in
  prototype, so the read finds an own member of an object and \<open>undefined\<close> (\<open>None\<close>)
  everywhere else.
\<close>

fun get_property :: "json \<Rightarrow> string \<Rightarrow> json option" where
  "get_property (JObj fs) k = map_of fs k"
| "get_property v k = None"

text \<open>\<^verbatim>\<open>v?.k\<close>: \<open>undefined\<close> on \<^verbatim>\<open>null\<close>.\<close>

definition optional_property :: "json \<Rightarrow> string \<Rightarrow> json option" where
  "optional_property v k = get_property v k"

text \<open>\<^verbatim>\<open>v.k\<close>: a TypeError on \<^verbatim>\<open>null\<close>.\<close>

definition read_property :: "json \<Rightarrow> string \<Rightarrow> js_error + json option" where
  "read_property v k =
     (if v = JNull
      then Inl (JsError ''TypeError''
             (''Cannot read properties of null (reading '' @ [CHR 0x27] @ k @ [CHR 0x27] @ '')''))
      else Inr (get_property v k))"

text \<open>\<^verbatim>\<open>x ?? d\<close>.\<close>

fun nullish_coalesce :: "json option \<Rightarrow> json \<Rightarrow> json" where
  "nullish_coalesce None d = d"
| "nullish_coalesce (Some JNull) d = d"
| "nullish_coalesce (Some v) d = v"

text \<open>A string or \<open>undefined\<close> inside a template literal.\<close>

fun template_string :: "string option \<Rightarrow> string" where
  "template_string None = ''undefined''"
| "template_string (Some s) = s"

fun of_string :: "string option \<Rightarrow> jsval" where
  "of_string None = Undefined"
| "of_string (Some s) = Val (JStr s)"

fun of_json :: "json option \<Rightarrow> jsval" where
  "of_json None = Undefined"
| "of_json (Some v) = Val v"

abbreviation str :: "string \<Rightarrow> jsval" where
  "str s \<equiv> Val (JStr s)"

text \<open>
  The conversion of a value to a property key (\<^verbatim>\<open>table[x]\<close>). A string is its own key.
  An array is the comma-joined keys of its elements, \<^verbatim>\<open>null\<close> counting as the empty
  string. An object prints as \<^verbatim>\<open>[object Object]\<close> through the inherited \<^verbatim>\<open>toString\<close>;
  when it has an own member \<^verbatim>\<open>toString\<close> (which, coming from \<^verbatim>\<open>JSON.parse\<close>, is not
  callable) neither that nor \<^verbatim>\<open>valueOf\<close> yields a primitive and the conversion throws a
  TypeError, also from inside an array. How a number prints is the engine's
  business and comes in as the parameter \<open>nts\<close>.
\<close>

fun join_comma :: "string list \<Rightarrow> string" where
  "join_comma [] = []"
| "join_comma [x] = x"
| "join_comma (x # y # ys) = x @ '','' @ join_comma (y # ys)"

fun to_property_key :: "(jsnum \<Rightarrow> string) \<Rightarrow> json \<Rightarrow> js_error + string"
  and element_keys :: "(jsnum \<Rightarrow> string) \<Rightarrow> json list \<Rightarrow> js_error + string list" where
  "to_property_key nts JNull = Inr ''null''"
| "to_property_key nts (JBool b) = Inr (if b then ''true'' else ''false'')"
| "to_property_key nts (JNum n) = Inr (nts n)"
| "to_property_key nts (JStr s) = Inr s"
| "to_property_key nts (JArr xs) =
     (case element_keys nts xs of Inl e \<Rightarrow> Inl e | Inr ks \<Rightarrow> Inr (join_comma ks))"
| "to_property_key nts (JObj fs) =
     (if map_of fs ''toString'' = None
      then Inr ''[object Object]''
      else Inl (JsError ''TypeError'' ''Cannot convert object to primitive value''))"
| "element_keys nts [] = Inr []"
| "element_keys nts (x # xs) =
     (case (if x = JNull then Inr [] else to_property_key nts x) of
        Inl e \<Rightarrow> Inl e
      | Inr k \<Rightarrow>
         (case element_keys nts xs of Inl e \<Rightarrow> Inl e | Inr ks \<Rightarrow> Inr (k # ks)))"

text \<open>
  An object literal inherits from \<^verbatim>\<open>Object.prototype\<close>, so \<^verbatim>\<open>table[key]\<close> finds the
  table's own entry first and an inherited member second.
\<close>

definition object_prototype_keys :: "string list" where
  "object_prototype_keys =
     [''constructor'', ''__defineGetter__'', ''__defineSetter__'', ''hasOwnProperty'',
      ''__lookupGetter__'', ''__lookupSetter__'', ''isPrototypeOf'', ''propertyIsEnumerable'',
      ''toString'', ''valueOf'', ''__proto__'', ''toLocaleString'']"

definition record_get :: "(string \<times> string) list \<Rightarrow> string \<Rightarrow> jsval" where
  "record_get table key =
     (case map_of table key of
        Some v \<Rightarrow> str v
      | None \<Rightarrow> if key \<in> set object_prototype_keys then Builtin key else Undefined)"

text \<open>
  The value that the text written by \<^verbatim>\<open>JSON.stringify\<close> denotes: a number that is not
  finite (\<^verbatim>\<open>JSON.parse\<close> gives \<^verbatim>\<open>Infinity\<close> for \<^verbatim>\<open>1e999\<close>) is written \<^verbatim>\<open>null\<close>, at any depth;
  everything else is written as it is.
\<close>

fun json_written :: "json \<Rightarrow> json" where
  "json_written JNull = JNull"
| "json_written (JBool b) = JBool b"
| "json_written (JNum (Finite q)) = JNum (Finite q)"
| "json_written (JNum PosInfinity) = JNull"
| "json_written (JNum NegInfinity) = JNull"
| "json_written (JNum NaN) = JNull"
| "json_written (JStr s) = JStr s"
| "json_written (JArr xs) = JArr (map json_written xs)"
| "json_written (JObj fs) = JObj (map (map_prod id json_written) fs)"


text \<open>
  \<^verbatim>\<open>JSON.stringify\<close> of an object literal: a member that is \<open>undefined\<close> or a function is
  left out; \<^verbatim>\<open>Object.prototype\<close> has no enumerable member and prints as \<^verbatim>\<open>{}\<close>.
  The result is kept as the member list of the JSON document rather than as its text.
\<close>

fun stringify_member :: "string \<times> jsval \<Rightarrow> (string \<times> json) list" where
  "stringify_member (k, Undefined) = []"
| "stringify_member (k, Val v) = [(k, json_written v)]"
| "stringify_member (k, Builtin name) = (if name = ''__proto__'' then [(k, JObj [])] else [])"

definition JSON_stringify :: "(string \<times> jsval) list \<Rightarrow> (string \<times> json) list" where
  "JSON_stringify members = concat (map stringify_member members)"


section \<open>The regular expression of the Markdown transformer\<close>

text \<open>
  \<^verbatim>\<open>/\[([^\]]*)\]\((https?:\/\/[^)]+)\)/g\<close> is built from literals, quantified character
  classes of one character, concatenation and capturing groups. The matcher follows
  the backtracking semantics of ECMAScript: a pattern is run against a state (the
  rest of the input, the captures so far) and a continuation that matches what
  comes after; a greedy quantifier tries the longer run first and falls back when
  the continuation fails.
\<close>

datatype cclass = Is char | IsNot char

fun cmatch :: "cclass \<Rightarrow> char \<Rightarrow> bool" where
  "cmatch (Is a) c = (c = a)"
| "cmatch (IsNot a) c = (c \<noteq> a)"

datatype regex =
    Literal string
  | Optional cclass
  | ZeroOrMore cclass
  | OneOrMore cclass
  | Seq regex regex
  | Capture nat regex

type_synonym captures = "nat \<rightharpoonup> string"
type_synonym mstate = "string \<times> captures"

fun strip_prefix :: "string \<Rightarrow> string \<Rightarrow> string option" where
  "strip_prefix [] s = Some s"
| "strip_prefix (a # w) [] = None"
| "strip_prefix (a # w) (c # s) = (if c = a then strip_prefix w s else None)"

fun or_else :: "'a option \<Rightarrow> 'a option \<Rightarrow> 'a option" where
  "or_else (Some r) y = Some r"
| "or_else None y = y"

fun star_m :: "cclass \<Rightarrow> string \<Rightarrow> (string \<Rightarrow> 'r option) \<Rightarrow> 'r option" where
  "star_m a [] k = k []"
| "star_m a (c # cs) k =
     (if cmatch a c then or_else (star_m a cs k) (k (c # cs)) else k (c # cs))"

fun matcher :: "regex \<Rightarrow> mstate \<Rightarrow> (mstate \<Rightarrow> mstate option) \<Rightarrow> mstate option" where
  "matcher (Literal w) (s, caps) k =
     (case strip_prefix w s of None \<Rightarrow> None | Some s' \<Rightarrow> k (s', caps))"
| "matcher (Optional a) (s, caps) k =
     (case s of
        [] \<Rightarrow> k (s, caps)
      | c # cs \<Rightarrow> if cmatch a c then or_else (k (cs, caps)) (k (s, caps)) else k (s, caps))"
| "matcher (ZeroOrMore a) (s, caps) k = star_m a s (\<lambda>s'. k (s', caps))"
| "matcher (OneOrMore a) (s, caps) k =
     (case s of
        [] \<Rightarrow> None
      | c # cs \<Rightarrow> if cmatch a c then star_m a cs (\<lambda>s'. k (s', caps)) else None)"
| "matcher (Seq p q) st k = matcher p st (\<lambda>st'. matcher q st' k)"
| "matcher (Capture n p) (s, caps) k =
     matcher p (s, caps)
       (\<lambda>(s', caps'). k (s', caps'(n \<mapsto> take (length s - length s') s)))"

text \<open>A match anchored at the head of \<open>s\<close>: the rest of the input after it, and the captures.\<close>

definition regex_exec :: "regex \<Rightarrow> string \<Rightarrow> mstate option" where
  "regex_exec r s = matcher r (s, Map.empty) Some"

text \<open>
  \<^verbatim>\<open>text.replace(/.../g, f)\<close>: scan from the left; where the pattern matches, emit
  \<open>f\<close> of the matched text and the captures and go on after the match (one character
  further when the match was empty); where it does not, copy one character.
  The pattern has no anchor, look-behind or word boundary, so matching at a position
  is matching against the rest of the input from there.
\<close>

function replace_global ::
  "regex \<Rightarrow> (string \<Rightarrow> captures \<Rightarrow> string) \<Rightarrow> string \<Rightarrow> string" where
  "replace_global r f s =
     (case regex_exec r s of
        None \<Rightarrow> (case s of [] \<Rightarrow> [] | c # cs \<Rightarrow> c # replace_global r f cs)
      | Some (rest, caps) \<Rightarrow>
          f (take (length s - length rest) s) caps @
          (if length rest < length s then replace_global r f rest
           else case s of [] \<Rightarrow> [] | c # cs \<Rightarrow> c # replace_global r f cs))"
  by pat_completeness auto
termination
  by (relation "measure (\<lambda>(r, f, s). length s)") auto

declare replace_global.simps [simp del]

definition link_pattern :: regex where
  "link_pattern =
     Seq (Literal ''['')
    (Seq (Capture 1 (ZeroOrMore (IsNot CHR '']'')))
    (Seq (Literal '']('')
    (Seq (Capture 2
           (Seq (Literal ''http'')
           (Seq (Optional (Is CHR ''s''))
           (Seq (Literal ''://'')
                (OneOrMore (IsNot CHR '')''))))))
         (Literal '')''))))"

text \<open>A capture inside a template literal; a group that did not take part prints as \<^verbatim>\<open>undefined\<close>.\<close>

definition capture :: "captures \<Rightarrow> nat \<Rightarrow> string" where
  "capture caps n = (case caps n of None \<Rightarrow> ''undefined'' | Some x \<Rightarrow> x)"

definition markdownToSlackMrkdwn :: "string \<Rightarrow> string" where
  "markdownToSlackMrkdwn text =
     replace_global link_pattern
       (\<lambda>_ caps. ''<'' @ capture caps 2 @ ''|'' @ capture caps 1 @ ''>'') text"

text \<open>
  The call \<^verbatim>\<open>markdownToSlackMrkdwn(message)\<close> with an untyped argument: a value that is not
  a string has no callable \<^verbatim>\<open>replace\<close>, and the call throws a TypeError (the messages
  are those of V8).
\<close>

fun call_markdownToSlackMrkdwn :: "json option \<Rightarrow> js_error + string" where
  "call_markdownToSlackMrkdwn (Some (JStr s)) = Inr (markdownToSlackMrkdwn s)"
| "call_markdownToSlackMrkdwn None =
     Inl (JsError ''TypeError'' ''Cannot read properties of undefined (reading 'replace')'')"
| "call_markdownToSlackMrkdwn (Some JNull) =
     Inl (JsError ''TypeError'' ''Cannot read properties of null (reading 'replace')'')"
| "call_markdownToSlackMrkdwn (Some v) =
     Inl (JsError ''TypeError'' ''text.replace is not a function'')"


section \<open>Responses\<close>

record response =
  resp_status :: nat
  resp_headers :: "(string \<times> string) list"
  resp_body :: "(string \<times> json) list"

definition JSON_HEADERS :: "(string \<times> string) list" where
  "JSON_HEADERS = [(''Content-Type'', ''application/json'')]"

text \<open>\<^verbatim>\<open>new Response(JSON.stringify(obj), { status, headers })\<close>.\<close>

definition json_response :: "nat \<Rightarrow> (string \<times> jsval) list \<Rightarrow> response" where
  "json_response st obj =
     \<lparr>resp_status = st, resp_headers = JSON_HEADERS, resp_body = JSON_stringify obj\<rparr>"

definition errorResponse :: "nat \<Rightarrow> jsval \<Rightarrow> jsval \<Rightarrow> jsval \<Rightarrow> response" where
  "errorResponse st category code message =
     json_response st [(''category'', category), (''code'', code), (''message'', message)]"


section \<open>The error mapper of the richer variant\<close>

text \<open>The fields \<^verbatim>\<open>status\<close>, \<^verbatim>\<open>category\<close>, \<^verbatim>\<open>code\<close>, \<^verbatim>\<open>message\<close> of the mapper's result.\<close>

record mapped =
  mapped_status :: nat
  mapped_category :: jsval
  mapped_code :: jsval
  mapped_message :: jsval

definition clientErrors :: "(string \<times> string) list" where
  "clientErrors =
     [(''channel_not_found'', ''Channel not found''),
      (''not_in_channel'', ''Bot is not in that channel'')]"

definition forbiddenErrors :: "(string \<times> string) list" where
  "forbiddenErrors =
     [(''invalid_auth'', ''Invalid Slack token''),
      (''not_authed'', ''Not authenticated''),
      (''token_revoked'', ''Slack token revoked''),
      (''account_inactive'', ''Slack app inactive''),
      (''missing_scope'', ''Bot missing required scope'')]"

text \<open>
  Each \<^verbatim>\<open>table[slackError]\<close> converts \<open>slackError\<close> to a key; the conversion gives the same
  key every time, or throws at the first lookup.
\<close>

definition mapSlackError :: "(jsnum \<Rightarrow> string) \<Rightarrow> json \<Rightarrow> js_error + mapped" where
  "mapSlackError nts slackError =
     (case to_property_key nts slackError of
        Inl e \<Rightarrow> Inl e
      | Inr key \<Rightarrow>
          Inr (if truthy_val (record_get clientErrors key)
               then \<lparr>mapped_status = 400, mapped_category = str ''client_error'',
                     mapped_code = Val slackError,
                     mapped_message = record_get clientErrors key\<rparr>
               else if truthy_val (record_get forbiddenErrors key)
               then \<lparr>mapped_status = 403, mapped_category = str ''forbidden'',
                     mapped_code = Val slackError,
                     mapped_message = record_get forbiddenErrors key\<rparr>
               else if slackError = JStr ''rate_limited''
               then \<lparr>mapped_status = 429, mapped_category = str ''rate_limited'',
                     mapped_code = str ''rate_limited'',
                     mapped_message = str ''Slack rate limit exceeded''\<rparr>
               else \<lparr>mapped_status = 500, mapped_category = str ''internal_error'',
                     mapped_code = str ''slack_error'',
                     mapped_message = str ''Slack API error''\<rparr>))"


section \<open>The handlers\<close>

text \<open>
  What the host runtime supplies: the request (its path parameters, and what
  \<^verbatim>\<open>await request.json()\<close> settles to), the configured secret, and \<^verbatim>\<open>fetch\<close>, which either
  rejects with an \<^verbatim>\<open>Error\<close> or resolves to a response with a status and a body that
  \<^verbatim>\<open>await slackResponse.json()\<close> parses or rejects.
\<close>

record request =
  params :: "(string \<times> string) list option"
  request_json :: "js_error + json"

record fetch_call =
  call_url :: string
  call_method :: string
  call_headers :: "(string \<times> string) list"
  call_body :: "(string \<times> json) list"

record fetch_response =
  slack_status :: nat
  slack_json :: "js_error + json"

datatype fetch_outcome = Rejects js_error | Resolves fetch_response

record runtime =
  SLACK_BOT_TOKEN :: "string option"
  fetch :: "fetch_call \<Rightarrow> fetch_outcome"
  number_to_string :: "jsnum \<Rightarrow> string"

text \<open>
  A run of a handler: the response it returns or the error that escapes it, and the
  outbound calls it issued, in order.
\<close>

datatype outcome = Returns response | Throws js_error

record run =
  outcome :: outcome
  calls :: "fetch_call list"

definition finish :: "response \<Rightarrow> fetch_call list \<Rightarrow> run" where
  "finish r cs = \<lparr>outcome = Returns r, calls = cs\<rparr>"

text \<open>\<^verbatim>\<open>request.params?.channel_name\<close>.\<close>

definition channel_name :: "request \<Rightarrow> string option" where
  "channel_name req = (case params req of None \<Rightarrow> None | Some ps \<Rightarrow> map_of ps ''channel_name'')"

text \<open>
  The argument of \<^verbatim>\<open>fetch\<close>. It is evaluated inside the \<^verbatim>\<open>try\<close> block before the call, so
  an error thrown by \<^verbatim>\<open>markdownToSlackMrkdwn(message)\<close> lands in the same \<^verbatim>\<open>catch\<close>.
\<close>

definition slack_call :: "string option \<Rightarrow> string option \<Rightarrow> json option \<Rightarrow> js_error + fetch_call" where
  "slack_call token channelName message =
     (case call_markdownToSlackMrkdwn message of
        Inl e \<Rightarrow> Inl e
      | Inr text \<Rightarrow>
          Inr \<lparr>call_url = ''https://slack.com/api/chat.postMessage'',
               call_method = ''POST'',
               call_headers =
                 [(''Authorization'', ''Bearer '' @ template_string token),
                  (''Content-Type'', ''application/json; charset=utf-8'')],
               call_body =
                 JSON_stringify
                   [(''channel'', str (''#'' @ template_string channelName)),
                    (''text'', str text)]\<rparr>)"

text \<open>The success envelope; a \<^verbatim>\<open>Response\<close> built without a status has status 200.\<close>

definition success_response :: "string option \<Rightarrow> json \<Rightarrow> response" where
  "success_response channelName slackResult =
     json_response 200
       [(''status'', str ''ok''),
        (''channel'', of_string channelName),
        (''ts'', of_json (get_property slackResult ''ts''))]"

text \<open>
  The richer variant, \<^verbatim>\<open>src/unnamed/part_000\<close>. \<open>rich_after_fetch\<close> is the handler from
  the \<^verbatim>\<open>catch\<close> of the call on (lines 93 to 126): what it makes of the outcome of
  \<^verbatim>\<open>fetch\<close>.
\<close>

definition rich_after_fetch :: "(jsnum \<Rightarrow> string) \<Rightarrow> string option \<Rightarrow> fetch_outcome \<Rightarrow> outcome" where
  "rich_after_fetch nts channelName answer =
     (case answer of
        Rejects err \<Rightarrow>
          Returns (errorResponse 503 (str ''service_unavailable'') (str ''slack_unavailable'')
                     (str ''Could not reach Slack''))
      | Resolves slackResponse \<Rightarrow>
         (case slack_json slackResponse of
            Inl e \<Rightarrow> Throws e
          | Inr slackResult \<Rightarrow>
              if slack_status slackResponse \<ge> 500
              then Returns (errorResponse 503 (str ''service_unavailable'')
                              (str ''slack_unavailable'') (str ''Slack API is unavailable''))
              else
                case read_property slackResult ''ok'' of
                  Inl e \<Rightarrow> Throws e
                | Inr ok \<Rightarrow>
                    if \<not> truthy_opt ok
                    then
                      case mapSlackError nts
                             (nullish_coalesce (get_property slackResult ''error'')
                                (JStr ''unknown'')) of
                        Inl e \<Rightarrow> Throws e
                      | Inr m \<Rightarrow>
                          Returns (errorResponse (mapped_status m) (mapped_category m)
                                     (mapped_code m) (mapped_message m))
                    else Returns (success_response channelName slackResult)))"

definition handler_rich :: "runtime \<Rightarrow> request \<Rightarrow> run" where
  "handler_rich rt req =
     (let channelName = channel_name req in
      if \<not> truthy_string channelName
      then finish (errorResponse 400 (str ''client_error'') (str ''missing_channel'')
                     (str ''Missing channel_name'')) []
      else
        case request_json req of
          Inl e \<Rightarrow>
            finish (errorResponse 400 (str ''client_error'') (str ''invalid_body'')
                      (str ''Invalid JSON body'')) []
        | Inr body \<Rightarrow>
            let message = optional_property body ''message'' in
            if \<not> truthy_opt message
            then finish (errorResponse 400 (str ''client_error'') (str ''missing_message'')
                           (str ''Missing 'message' field'')) []
            else
              let token = SLACK_BOT_TOKEN rt in
              if \<not> truthy_string token
              then finish (errorResponse 500 (str ''internal_error'') (str ''config_error'')
                             (str ''SLACK_BOT_TOKEN not configured'')) []
              else
                case slack_call token channelName message of
                  Inl err \<Rightarrow>
                    finish (errorResponse 503 (str ''service_unavailable'')
                              (str ''slack_unavailable'') (str ''Could not reach Slack'')) []
                | Inr call \<Rightarrow>
                    \<lparr>outcome = rich_after_fetch (number_to_string rt) channelName (fetch rt call),
                     calls = [call]\<rparr>)"

text \<open>
  The plain variant, \<^verbatim>\<open>src/modules/sendSlackNotification.ts\<close>, and its part from the
  \<^verbatim>\<open>catch\<close> of the call on (lines 72 to 103).
\<close>

definition plain_after_fetch :: "string option \<Rightarrow> fetch_outcome \<Rightarrow> outcome" where
  "plain_after_fetch channelName answer =
     (case answer of
        Rejects err \<Rightarrow>
          Returns (json_response 502
                     [(''error'', str ''Failed to reach Slack API''),
                      (''details'', str (err_message err))])
      | Resolves slackResponse \<Rightarrow>
         (case slack_json slackResponse of
            Inl e \<Rightarrow> Throws e
          | Inr slackResult \<Rightarrow>
             (case read_property slackResult ''ok'' of
                Inl e \<Rightarrow> Throws e
              | Inr ok \<Rightarrow>
                  if \<not> truthy_opt ok
                  then Returns (json_response 500
                                  [(''error'', str ''Slack API error''),
                                   (''slack_error'', of_json (get_property slackResult ''error''))])
                  else Returns (success_response channelName slackResult))))"

definition handler_plain :: "runtime \<Rightarrow> request \<Rightarrow> run" where
  "handler_plain rt req =
     (let channelName = channel_name req in
      if \<not> truthy_string channelName
      then finish (json_response 400 [(''error'', str ''Missing channel_name'')]) []
      else
        case request_json req of
          Inl e \<Rightarrow> finish (json_response 400 [(''error'', str ''Invalid JSON body'')]) []
        | Inr body \<Rightarrow>
            let message = optional_property body ''message'' in
            if \<not> truthy_opt message
            then finish (json_response 400 [(''error'', str ''Missing 'message' field'')]) []
            else
              let token = SLACK_BOT_TOKEN rt in
              if \<not> truthy_string token
              then finish (json_response 500 [(''error'', str ''SLACK_BOT_TOKEN not configured'')]) []
              else
                case slack_call token channelName message of
                  Inl err \<Rightarrow>
                    finish (json_response 502
                              [(''error'', str ''Failed to reach Slack API''),
                               (''details'', str (err_message err))]) []
                | Inr call \<Rightarrow>
                    \<lparr>outcome = plain_after_fetch channelName (fetch rt call),
                     calls = [call]\<rparr>)"

text \<open>The \<^verbatim>\<open>code\<close> member of the response of a run, when there is one.\<close>

definition response_code :: "run \<Rightarrow> json option" where
  "response_code r =
     (case outcome r of Returns resp \<Rightarrow> map_of (resp_body resp) ''code'' | Throws e \<Rightarrow> None)"

definition response_status :: "run \<Rightarrow> nat option" where
  "response_status r =
     (case outcome r of Returns resp \<Rightarrow> Some (resp_status resp) | Throws e \<Rightarrow> None)"


section \<open>What the specification calls a link\<close>

text \<open>
  A label is a run of characters without \<^verbatim>\<open>]\<close>. A url, as the pattern of the source has
  it, is \<^verbatim>\<open>http://\<close> or \<^verbatim>\<open>https://\<close> followed by at least one character, none of them \<^verbatim>\<open>)\<close>;
  \<open>is_url_wide\<close> is the wider reading that lets nothing follow the scheme.
\<close>

definition is_label :: "string \<Rightarrow> bool" where
  "is_label l \<longleftrightarrow> CHR '']'' \<notin> set l"

definition is_url :: "string \<Rightarrow> bool" where
  "is_url u \<longleftrightarrow>
     (\<exists>b. b \<noteq> [] \<and> CHR '')'' \<notin> set b \<and> (u = ''http://'' @ b \<or> u = ''https://'' @ b))"

definition is_url_wide :: "string \<Rightarrow> bool" where
  "is_url_wide u \<longleftrightarrow>
     (\<exists>b. CHR '')'' \<notin> set b \<and> (u = ''http://'' @ b \<or> u = ''https://'' @ b))"

definition link_text :: "string \<Rightarrow> string \<Rightarrow> string" where
  "link_text l u = ''['' @ l @ '']('' @ u @ '')''"

definition slack_link :: "string \<Rightarrow> string \<Rightarrow> string" where
  "slack_link l u = ''<'' @ u @ ''|'' @ l @ ''>''"

definition starts_with_link :: "string \<Rightarrow> bool" where
  "starts_with_link s \<longleftrightarrow> (\<exists>l u rest. is_label l \<and> is_url u \<and> s = link_text l u @ rest)"

definition contains_link :: "string \<Rightarrow> bool" where
  "contains_link s \<longleftrightarrow> (\<exists>pre t. s = pre @ t \<and> starts_with_link t)"

text \<open>
  In the text \<open>pre @ t\<close> the scan from the left arrives at \<open>t\<close>: it gets through \<open>pre\<close> by
  characters where no link starts and by whole links, so \<open>t\<close> does not begin inside a
  link that started earlier.
\<close>

inductive scan_reaches :: "string \<Rightarrow> string \<Rightarrow> bool" where
  at_start: "scan_reaches [] t"
| past_character: "\<not> starts_with_link (c # pre @ t) \<Longrightarrow> scan_reaches pre t \<Longrightarrow> scan_reaches (c # pre) t"
| past_link: "is_label l \<Longrightarrow> is_url u \<Longrightarrow> scan_reaches pre t \<Longrightarrow> scan_reaches (link_text l u @ pre) t"

text \<open>The words a pattern matches, whatever the order in which the matcher tries them.\<close>

fun lang :: "regex \<Rightarrow> string set" where
  "lang (Literal w) = {w}"
| "lang (Optional a) = {[]} \<union> {[c] | c. cmatch a c}"
| "lang (ZeroOrMore a) = {w. \<forall>c \<in> set w. cmatch a c}"
| "lang (OneOrMore a) = {w. w \<noteq> [] \<and> (\<forall>c \<in> set w. cmatch a c)}"
| "lang (Seq p q) = {u @ v | u v. u \<in> lang p \<and> v \<in> lang q}"
| "lang (Capture n p) = lang p"


section \<open>Sample inputs\<close>

text \<open>
  A request for the channel \<^verbatim>\<open>general\<close> with a message holding one link, the call the
  handlers issue for it, and a runtime whose \<^verbatim>\<open>fetch\<close> gives a fixed answer.
\<close>

definition sample_request :: request where
  "sample_request =
     \<lparr>params = Some [(''channel_name'', ''general'')],
      request_json = Inr (JObj [(''message'', JStr ''See [docs](https://example.com/a) now'')])\<rparr>"

definition sample_call :: fetch_call where
  "sample_call =
     \<lparr>call_url = ''https://slack.com/api/chat.postMessage'',
      call_method = ''POST'',
      call_headers =
        [(''Authorization'', ''Bearer xoxb-1''),
         (''Content-Type'', ''application/json; charset=utf-8'')],
      call_body =
        [(''channel'', JStr ''#general''),
         (''text'', JStr ''See <https://example.com/a|docs> now'')]\<rparr>"

definition sample_runtime :: "fetch_outcome \<Rightarrow> runtime" where
  "sample_runtime answer =
     \<lparr>SLACK_BOT_TOKEN = Some ''xoxb-1'', fetch = (\<lambda>c. answer), number_to_string = (\<lambda>n. ''1'')\<rparr>"


text \<open>
  Answers of Slack: a result with \<^verbatim>\<open>ok: true\<close> under status 200 and under status 503, one
  whose \<^verbatim>\<open>ts\<close> is the number that \<^verbatim>\<open>JSON.parse\<close> makes of \<^verbatim>\<open>1e999\<close>, and
  a result with \<^verbatim>\<open>ok: false\<close> and an error code. Requests: one without a channel and with
  a body that does not parse, and one for the channel \<^verbatim>\<open>general\<close> with a given body.
\<close>

definition slack_ok_result :: json where
  "slack_ok_result = JObj [(''ok'', JBool True), (''ts'', JStr ''1234.5678'')]"

definition unavailable_answer :: fetch_outcome where
  "unavailable_answer = Resolves \<lparr>slack_status = 503, slack_json = Inr slack_ok_result\<rparr>"


definition ok_answer :: fetch_outcome where
  "ok_answer = Resolves \<lparr>slack_status = 200, slack_json = Inr slack_ok_result\<rparr>"

definition slack_error_answer :: "string \<Rightarrow> fetch_outcome" where
  "slack_error_answer e =
     Resolves \<lparr>slack_status = 200,
               slack_json = Inr (JObj [(''ok'', JBool False), (''error'', JStr e)])\<rparr>"

definition no_channel_request :: request where
  "no_channel_request =
     \<lparr>params = Some [], request_json = Inl (JsError ''SyntaxError'' ''Unexpected end of JSON input'')\<rparr>"

definition request_with_body :: "json \<Rightarrow> request" where
  "request_with_body b = \<lparr>params = Some [(''channel_name'', ''general'')], request_json = Inr b\<rparr>"


section \<open>The matcher on the link pattern\<close>

text \<open>
  A run \<^verbatim>\<open>[^c]*\<close> followed by something that must begin with \<open>c\<close> can only stop at the
  first \<open>c\<close>: the greedy quantifier has nothing to fall back to.
\<close>

lemma strip_prefix_Some: "strip_prefix w s = Some r \<longleftrightarrow> s = w @ r"
  by (induction w s rule: strip_prefix.induct) auto

lemma strip_prefix_append [simp]: "strip_prefix w (w @ r) = Some r"
  by (simp add: strip_prefix_Some)

lemma or_else_None [simp]: "or_else x None = x"
  by (cases x) simp_all

lemma or_else_Some: "or_else x y = Some r \<Longrightarrow> x = Some r \<or> y = Some r"
  by (cases x) simp_all

lemma star_m_run:
  assumes "k [] = None" and "\<And>x xs. x \<noteq> c \<Longrightarrow> k (x # xs) = None"
  shows "star_m (IsNot c) s k = k (dropWhile (\<lambda>x. x \<noteq> c) s)"
  using assms by (induction s) auto

lemma dropWhile_run: "c \<notin> set l \<Longrightarrow> dropWhile (\<lambda>x. x \<noteq> c) (l @ c # r) = c # r"
  by (induction l) auto

lemma link_exec_complete_aux:
  assumes "CHR '']'' \<notin> set l" "b \<noteq> []" "CHR '')'' \<notin> set b" "sch = ''http://'' \<or> sch = ''https://''"
  shows "regex_exec link_pattern (''['' @ l @ '']('' @ sch @ b @ '')'' @ rest) =
           Some (rest, [1 \<mapsto> l, 2 \<mapsto> sch @ b])"
proof -
  obtain x xs where b: "b = x # xs" using assms(2) by (cases b) auto
  have x: "x \<noteq> CHR '')''" and xs: "CHR '')'' \<notin> set xs" using assms(3) b by auto
  have d1: "dropWhile (\<lambda>x. x \<noteq> CHR '']'') (l @ CHR '']'' # r) = CHR '']'' # r" for r
    using assms(1) by (rule dropWhile_run)
  have d2: "dropWhile (\<lambda>x. x \<noteq> CHR '')'') (xs @ CHR '')'' # r) = CHR '')'' # r" for r
    using xs by (rule dropWhile_run)
  from assms(4) show ?thesis
  proof
    assume "sch = ''http://''"
    then show ?thesis
      unfolding regex_exec_def link_pattern_def b
      using x by (simp add: star_m_run d1 d2 numeral_eq_Suc)
  next
    assume "sch = ''https://''"
    then show ?thesis
      unfolding regex_exec_def link_pattern_def b
      using x by (simp add: star_m_run d1 d2 numeral_eq_Suc)
  qed
qed


lemma star_m_sound:
  "star_m a s k = Some res \<Longrightarrow> \<exists>w s'. s = w @ s' \<and> (\<forall>c \<in> set w. cmatch a c) \<and> k s' = Some res"
proof (induction s)
  case Nil
  then show ?case by simp
next
  case (Cons x s)
  show ?case
  proof (cases "cmatch a x \<and> star_m a s k = Some res")
    case True
    with Cons.IH obtain w s' where "s = w @ s'" "\<forall>c \<in> set w. cmatch a c" "k s' = Some res"
      by blast
    with True have "x # s = (x # w) @ s' \<and> (\<forall>c \<in> set (x # w). cmatch a c) \<and> k s' = Some res"
      by simp
    then show ?thesis by blast
  next
    case False
    with Cons.prems have "k (x # s) = Some res"
      by (auto split: if_splits dest: or_else_Some)
    then have "x # s = [] @ (x # s) \<and> (\<forall>c \<in> set []. cmatch a c) \<and> k (x # s) = Some res"
      by simp
    then show ?thesis by blast
  qed
qed

lemma matcher_sound:
  "matcher r st k = Some res \<Longrightarrow>
     \<exists>w s' caps'. fst st = w @ s' \<and> w \<in> lang r \<and> k (s', caps') = Some res"
proof (induction r arbitrary: st k)
  case (Literal w)
  then show ?case
    by (cases st) (auto split: option.splits simp: strip_prefix_Some)
next
  case (Optional a)
  obtain s caps where st: "st = (s, caps)" by (cases st)
  show ?case
  proof (cases "k (s, caps) = Some res")
    case True
    then show ?thesis using st by force
  next
    case False
    with Optional st obtain c cs where "s = c # cs" "cmatch a c" "k (cs, caps) = Some res"
      by (auto split: list.splits if_splits dest: or_else_Some)
    then have "fst st = [c] @ cs \<and> [c] \<in> lang (Optional a) \<and> k (cs, caps) = Some res"
      using st by simp
    then show ?thesis by blast
  qed
next
  case (ZeroOrMore a)
  obtain s caps where st: "st = (s, caps)" by (cases st)
  with ZeroOrMore have "star_m a s (\<lambda>s'. k (s', caps)) = Some res" by simp
  from star_m_sound [OF this] show ?case using st by auto
next
  case (OneOrMore a)
  obtain s caps where st: "st = (s, caps)" by (cases st)
  with OneOrMore obtain c cs where s: "s = c # cs" "cmatch a c"
    and "star_m a cs (\<lambda>s'. k (s', caps)) = Some res"
    by (auto split: list.splits if_splits)
  from star_m_sound [OF this(3)] obtain w s' where
    "cs = w @ s'" "\<forall>c \<in> set w. cmatch a c" "k (s', caps) = Some res" by blast
  with s st have "fst st = (c # w) @ s' \<and> c # w \<in> lang (OneOrMore a) \<and> k (s', caps) = Some res"
    by simp
  then show ?case by blast
next
  case (Seq p q)
  from Seq.prems have "matcher p st (\<lambda>st'. matcher q st' k) = Some res" by simp
  from Seq.IH(1) [OF this] obtain u s1 c1 where
    u: "fst st = u @ s1" "u \<in> lang p" and "matcher q (s1, c1) k = Some res" by blast
  from Seq.IH(2) [OF this(3)] obtain v s2 c2 where
    v: "s1 = v @ s2" "v \<in> lang q" "k (s2, c2) = Some res" by auto
  with u have "fst st = (u @ v) @ s2 \<and> u @ v \<in> lang (Seq p q) \<and> k (s2, c2) = Some res"
    by auto
  then show ?case by blast
next
  case (Capture n p)
  obtain s caps where st: "st = (s, caps)" by (cases st)
  with Capture.prems have
    "matcher p (s, caps) (\<lambda>(s', caps'). k (s', caps'(n \<mapsto> take (length s - length s') s))) = Some res"
    by simp
  from Capture.IH [OF this] show ?case using st by auto
qed

lemma lang_Seq_Literal: "w \<in> lang (Seq (Literal a) q) \<longleftrightarrow> (\<exists>v. w = a @ v \<and> v \<in> lang q)"
  by auto

lemma lang_Seq: "w \<in> lang (Seq p q) \<longleftrightarrow> (\<exists>u v. w = u @ v \<and> u \<in> lang p \<and> v \<in> lang q)"
  by auto

lemma lang_url:
  assumes "u \<in> lang (Seq (Literal ''http'') (Seq (Optional (Is CHR ''s'')) (Seq (Literal ''://'') (OneOrMore (IsNot CHR '')'')))))"
  shows "is_url u"
proof -
  from assms obtain v1 where v1: "u = ''http'' @ v1"
    "v1 \<in> lang (Seq (Optional (Is CHR ''s'')) (Seq (Literal ''://'') (OneOrMore (IsNot CHR '')''))))"
    unfolding lang_Seq_Literal by blast
  from v1(2) obtain sopt v2 where v2: "v1 = sopt @ v2" "sopt \<in> lang (Optional (Is CHR ''s''))"
    "v2 \<in> lang (Seq (Literal ''://'') (OneOrMore (IsNot CHR '')'')))"
    unfolding lang_Seq by blast
  from v2(3) obtain b where b: "v2 = ''://'' @ b" "b \<in> lang (OneOrMore (IsNot CHR '')''))"
    unfolding lang_Seq_Literal by blast
  from v2(2) have "sopt = [] \<or> sopt = ''s''" by auto
  moreover from b(2) have "b \<noteq> []" "CHR '')'' \<notin> set b" by auto
  ultimately show ?thesis
    unfolding is_url_def v1(1) v2(1) b(1) by auto
qed

lemma lang_link_pattern:
  assumes "w \<in> lang link_pattern"
  shows "\<exists>l u. is_label l \<and> is_url u \<and> w = link_text l u"
proof -
  from assms obtain v1 where v1: "w = ''['' @ v1"
    "v1 \<in> lang (Seq (Capture 1 (ZeroOrMore (IsNot CHR '']'')))
    (Seq (Literal '']('')
    (Seq (Capture 2 (Seq (Literal ''http'') (Seq (Optional (Is CHR ''s'')) (Seq (Literal ''://'') (OneOrMore (IsNot CHR '')''))))))
         (Literal '')''))))"
    unfolding link_pattern_def lang_Seq_Literal by blast
  from v1(2) obtain l v2 where v2: "v1 = l @ v2" "l \<in> lang (Capture 1 (ZeroOrMore (IsNot CHR '']'')))"
    "v2 \<in> lang (Seq (Literal '']('')
    (Seq (Capture 2 (Seq (Literal ''http'') (Seq (Optional (Is CHR ''s'')) (Seq (Literal ''://'') (OneOrMore (IsNot CHR '')''))))))
         (Literal '')'')))"
    unfolding lang_Seq by blast
  from v2(3) obtain v3 where v3: "v2 = '']('' @ v3"
    "v3 \<in> lang (Seq (Capture 2 (Seq (Literal ''http'') (Seq (Optional (Is CHR ''s'')) (Seq (Literal ''://'') (OneOrMore (IsNot CHR '')''))))))
         (Literal '')''))"
    unfolding lang_Seq_Literal by blast
  from v3(2) obtain u v4 where v4: "v3 = u @ v4"
    "u \<in> lang (Capture 2 (Seq (Literal ''http'') (Seq (Optional (Is CHR ''s'')) (Seq (Literal ''://'') (OneOrMore (IsNot CHR '')''))))))"
    "v4 \<in> lang (Literal '')'')"
    unfolding lang_Seq by blast
  have "is_label l" using v2(2) by (auto simp: is_label_def)
  moreover have "is_url u" using v4(2) by (intro lang_url) simp
  moreover have "w = link_text l u"
    using v4(3) unfolding link_text_def v1(1) v2(1) v3(1) v4(1) by simp
  ultimately show ?thesis by blast
qed

lemma link_exec_sound:
  assumes "regex_exec link_pattern s = Some (rest, caps)"
  shows "\<exists>l u. is_label l \<and> is_url u \<and> s = link_text l u @ rest \<and> caps = [1 \<mapsto> l, 2 \<mapsto> u]"
proof -
  from assms obtain w s' caps' where "s = w @ s'" "w \<in> lang link_pattern"
    using matcher_sound [of link_pattern "(s, Map.empty)" Some "(rest, caps)"]
    by (auto simp: regex_exec_def)
  then obtain l u s' where lu: "is_label l" "is_url u" "s = link_text l u @ s'"
    using lang_link_pattern by blast
  from lu(2) obtain b sch where "b \<noteq> []" "CHR '')'' \<notin> set b" "u = sch @ b"
    "sch = ''http://'' \<or> sch = ''https://''"
    unfolding is_url_def by auto
  with lu(1) have "regex_exec link_pattern (''['' @ l @ '']('' @ sch @ b @ '')'' @ s') =
      Some (s', [1 \<mapsto> l, 2 \<mapsto> sch @ b])"
    by (intro link_exec_complete_aux) (auto simp: is_label_def)
  with lu(3) \<open>u = sch @ b\<close> have "regex_exec link_pattern s = Some (s', [1 \<mapsto> l, 2 \<mapsto> u])"
    by (simp add: link_text_def)
  with assms lu show ?thesis by auto
qed
lemma link_exec_complete:
  assumes "is_label l" "is_url u"
  shows "regex_exec link_pattern (link_text l u @ rest) = Some (rest, [1 \<mapsto> l, 2 \<mapsto> u])"
proof -
  from assms(2) obtain b sch where b: "b \<noteq> []" "CHR '')'' \<notin> set b" "u = sch @ b"
    "sch = ''http://'' \<or> sch = ''https://''"
    unfolding is_url_def by auto
  from assms(1) have "CHR '']'' \<notin> set l" by (simp add: is_label_def)
  from link_exec_complete_aux [OF this b(1,2,4), of rest] show ?thesis
    by (simp add: link_text_def b(3))
qed

lemma starts_with_link_iff: "starts_with_link s \<longleftrightarrow> regex_exec link_pattern s \<noteq> None"
proof
  assume "starts_with_link s"
  then show "regex_exec link_pattern s \<noteq> None"
    by (auto simp: starts_with_link_def link_exec_complete)
next
  assume "regex_exec link_pattern s \<noteq> None"
  then obtain rest caps where "regex_exec link_pattern s = Some (rest, caps)" by auto
  from link_exec_sound [OF this] show "starts_with_link s"
    by (auto simp: starts_with_link_def)
qed

lemma link_text_not_Nil: "link_text l u \<noteq> []"
  by (simp add: link_text_def)

lemma md_Nil: "markdownToSlackMrkdwn [] = []"
  by (simp add: markdownToSlackMrkdwn_def regex_exec_def link_pattern_def replace_global.simps)

lemma md_link:
  assumes "is_label l" "is_url u"
  shows "markdownToSlackMrkdwn (link_text l u @ rest) = slack_link l u @ markdownToSlackMrkdwn rest"
  unfolding markdownToSlackMrkdwn_def
  by (subst replace_global.simps)
     (simp add: link_exec_complete [OF assms] link_text_not_Nil capture_def slack_link_def)

lemma md_skip:
  assumes "\<not> starts_with_link (c # t)"
  shows "markdownToSlackMrkdwn (c # t) = c # markdownToSlackMrkdwn t"
proof -
  from assms have "regex_exec link_pattern (c # t) = None"
    by (cases "regex_exec link_pattern (c # t)") (auto simp: starts_with_link_iff)
  then show ?thesis
    unfolding markdownToSlackMrkdwn_def by (subst replace_global.simps) simp
qed

lemma contains_link_Cons: "contains_link (c # s) \<longleftrightarrow> starts_with_link (c # s) \<or> contains_link s"
  unfolding contains_link_def
  apply (rule iffI)
   apply (metis append_eq_Cons_conv)
  apply (metis append_Cons append_Nil)
  done

lemma not_starts_with_link_Nil: "\<not> starts_with_link []"
  by (simp add: starts_with_link_def link_text_def)

lemma contains_link_Nil: "\<not> contains_link []"
  by (simp add: contains_link_def not_starts_with_link_Nil)

lemma md_no_link: "\<not> contains_link s \<Longrightarrow> markdownToSlackMrkdwn s = s"
  by (induction s) (auto simp: md_Nil md_skip contains_link_Cons)

text \<open>A link at the head of a text is a link at the head of every extension of it.\<close>

lemma starts_with_link_append: "starts_with_link s \<Longrightarrow> starts_with_link (s @ t)"
  unfolding starts_with_link_def by (metis append.assoc)

text \<open>Where the scan arrives, the transformer starts afresh.\<close>

lemma md_scan_reaches:
  "scan_reaches pre t \<Longrightarrow>
     markdownToSlackMrkdwn (pre @ t) = markdownToSlackMrkdwn pre @ markdownToSlackMrkdwn t"
proof (induction rule: scan_reaches.induct)
  case (at_start t)
  show ?case by (simp add: md_Nil)
next
  case (past_character c pre t)
  from past_character.hyps(1) have "\<not> starts_with_link (c # pre)"
    using starts_with_link_append [of "c # pre" t] by auto
  with past_character show ?case by (simp add: md_skip)
next
  case (past_link l u pre t)
  then show ?case by (simp add: md_link)
qed

lemma no_bracket_scan_reaches: "CHR ''['' \<notin> set pre \<Longrightarrow> scan_reaches pre t"
proof (induction pre)
  case Nil
  show ?case by (rule scan_reaches.at_start)
next
  case (Cons c pre)
  then have "\<not> starts_with_link (c # pre @ t)"
    by (auto simp: starts_with_link_def link_text_def)
  with Cons show ?case by (auto intro: scan_reaches.past_character)
qed


lemmas link_eval =
  starts_with_link_iff regex_exec_def link_pattern_def contains_link_Cons contains_link_Nil

lemmas md_eval =
  markdownToSlackMrkdwn_def replace_global.simps regex_exec_def link_pattern_def capture_def

lemma is_url_example: "is_url ''https://example.com/a''"
  unfolding is_url_def by (rule exI [of _ "''example.com/a''"]) simp

lemma is_url_wide_http: "is_url_wide ''http://''"
  unfolding is_url_wide_def by (rule exI [of _ "[]"]) simp

lemma is_url_wide_https: "is_url_wide ''https://''"
  unfolding is_url_wide_def by (rule exI [of _ "[]"]) simp


section \<open>The handlers on the sample inputs\<close>

lemmas handler_defs =
  handler_rich_def handler_plain_def channel_name_def optional_property_def slack_call_def
  finish_def Let_def

lemmas after_fetch_defs =
  rich_after_fetch_def plain_after_fetch_def read_property_def Let_def

lemmas response_defs =
  errorResponse_def json_response_def success_response_def JSON_stringify_def

text \<open>Once the call is issued, the outcome is what the second part makes of the answer.\<close>

lemma rich_called:
  assumes "calls (handler_rich rt req) = [c]"
  shows "outcome (handler_rich rt req) =
           rich_after_fetch (number_to_string rt) (channel_name req) (fetch rt c)"
    and "slack_call (SLACK_BOT_TOKEN rt) (channel_name req)
           (case request_json req of Inl e \<Rightarrow> None | Inr body \<Rightarrow> optional_property body ''message'')
         = Inr c"
  using assms by (auto simp: handler_rich_def finish_def Let_def split: sum.splits if_splits)

lemma plain_called:
  assumes "calls (handler_plain rt req) = [c]"
  shows "outcome (handler_plain rt req) = plain_after_fetch (channel_name req) (fetch rt c)"
    and "slack_call (SLACK_BOT_TOKEN rt) (channel_name req)
           (case request_json req of Inl e \<Rightarrow> None | Inr body \<Rightarrow> optional_property body ''message'')
         = Inr c"
  using assms by (auto simp: handler_plain_def finish_def Let_def split: sum.splits if_splits)


lemma sample_slack_call:
  "slack_call (Some ''xoxb-1'') (Some ''general'')
     (Some (JStr ''See [docs](https://example.com/a) now'')) = Inr sample_call"
  by (simp add: slack_call_def sample_call_def JSON_stringify_def md_eval)

lemma sample_calls_rich: "calls (handler_rich (sample_runtime a) sample_request) = [sample_call]"
  by (simp add: handler_rich_def channel_name_def optional_property_def sample_request_def
        sample_runtime_def sample_slack_call)

lemma sample_calls_plain: "calls (handler_plain (sample_runtime a) sample_request) = [sample_call]"
  by (simp add: handler_plain_def channel_name_def optional_property_def sample_request_def
        sample_runtime_def sample_slack_call)

lemma sample_channel_name: "channel_name sample_request = Some ''general''"
  by (simp add: channel_name_def sample_request_def)

lemma sample_fetch: "fetch (sample_runtime a) c = a"
  by (simp add: sample_runtime_def)


section \<open>The claims about the Markdown transformer\<close>

text \<open>
  C2, as amended. The transformer scans the text from the left. Where the text at the
  scanning position begins with \<^verbatim>\<open>[label](url)\<close>, the label without \<^verbatim>\<open>]\<close> and the url
  \<^verbatim>\<open>http://\<close> or \<^verbatim>\<open>https://\<close> followed by at least one character, none of them \<^verbatim>\<open>)\<close>,
  it emits \<^verbatim>\<open><url|label>\<close> and goes on after the closing parenthesis, so every such
  occurrence it reaches is replaced, not only the first; everywhere else it copies
  one character and goes on. The text
  \<^verbatim>\<open>See [docs](https://example.com/a) now\<close> becomes \<^verbatim>\<open>See <https://example.com/a|docs> now\<close>.
\<close>

theorem markdown_replaces_links_left_to_right:
  "markdownToSlackMrkdwn [] = [] \<and>
   (is_label l \<and> is_url u \<longrightarrow>
      markdownToSlackMrkdwn (link_text l u @ rest) = slack_link l u @ markdownToSlackMrkdwn rest) \<and>
   (\<not> starts_with_link (c # t) \<longrightarrow>
      markdownToSlackMrkdwn (c # t) = c # markdownToSlackMrkdwn t) \<and>
   markdownToSlackMrkdwn ''See [docs](https://example.com/a) now'' =
     ''See <https://example.com/a|docs> now'' \<and>
   markdownToSlackMrkdwn ''[a](http://x) and [b](https://y)'' = ''<http://x|a> and <https://y|b>''"
proof -
  have "markdownToSlackMrkdwn ''See [docs](https://example.com/a) now'' =
     ''See <https://example.com/a|docs> now''"
    by (simp add: md_eval)
  moreover have "markdownToSlackMrkdwn ''[a](http://x) and [b](https://y)'' = ''<http://x|a> and <https://y|b>''"
    by (simp add: md_eval)
  ultimately show ?thesis
    by (simp add: md_Nil md_link md_skip)
qed

theorem markdown_replaces_links_left_to_right_witness:
  "is_label ''docs'' \<and> is_url ''https://example.com/a'' \<and>
   markdownToSlackMrkdwn (link_text ''docs'' ''https://example.com/a'' @ '' now'') =
     slack_link ''docs'' ''https://example.com/a'' @ markdownToSlackMrkdwn '' now'' \<and>
   \<not> starts_with_link ''See [docs](https://example.com/a) now'' \<and>
   markdownToSlackMrkdwn ''See [docs](https://example.com/a) now'' =
     CHR ''S'' # markdownToSlackMrkdwn ''ee [docs](https://example.com/a) now''"
proof -
  have l: "is_label ''docs''" by (simp add: is_label_def)
  have n: "\<not> starts_with_link (CHR ''S'' # ''ee [docs](https://example.com/a) now'')"
    by (simp add: link_eval)
  from markdown_replaces_links_left_to_right
         [of "''docs''" "''https://example.com/a''" "'' now''" "CHR ''S''" "''ee [docs](https://example.com/a) now''"]
       l is_url_example n
  show ?thesis by simp
qed

text \<open>
  The claim as stated also counts a url that is the bare scheme: \<^verbatim>\<open>[a](http://)\<close> has a
  label without \<^verbatim>\<open>]\<close> and a url that begins with \<^verbatim>\<open>http://\<close> and has no \<^verbatim>\<open>)\<close>, and it
  is left as it is.
\<close>

theorem markdown_scheme_only_counterexample:
  "is_label ''a'' \<and> is_url_wide ''http://'' \<and>
   markdownToSlackMrkdwn (''see '' @ link_text ''a'' ''http://'') \<noteq> ''see '' @ slack_link ''a'' ''http://'' \<and>
   markdownToSlackMrkdwn ''see [a](http://)'' = ''see [a](http://)''"
  using is_url_wide_http by (simp add: is_label_def link_text_def slack_link_def md_eval)

text \<open>
  C9. On a text no part of which matches the link pattern (bold, italic,
  strikethrough, inline code and fenced code among them) the transformer is the
  identity, and so it is idempotent there.
\<close>

theorem markdown_identity_without_link:
  assumes "\<not> contains_link s"
  shows "markdownToSlackMrkdwn s = s \<and>
         markdownToSlackMrkdwn (markdownToSlackMrkdwn s) = markdownToSlackMrkdwn s"
  using assms by (simp add: md_no_link)

theorem markdown_identity_without_link_witness:
  "\<not> contains_link ''*bold* _italic_ ~~strike~~ `code` ```fence``` [note] (http://x) [a](ftp://b)'' \<and>
   markdownToSlackMrkdwn ''*bold* _italic_ ~~strike~~ `code` ```fence``` [note] (http://x) [a](ftp://b)'' =
     ''*bold* _italic_ ~~strike~~ `code` ```fence``` [note] (http://x) [a](ftp://b)''"
proof -
  have h: "\<not> contains_link ''*bold* _italic_ ~~strike~~ `code` ```fence``` [note] (http://x) [a](ftp://b)''"
    by (simp add: link_eval)
  from markdown_identity_without_link [OF h] h show ?thesis by simp
qed

text \<open>
  C10, as amended. The label may be empty: for a url \<open>u\<close> that is \<^verbatim>\<open>http://\<close> or \<^verbatim>\<open>https://\<close>
  followed by at least one character, none of them \<^verbatim>\<open>)\<close>, an occurrence of \<^verbatim>\<open>[](u)\<close> that
  does not begin inside a link that started earlier is rewritten to \<^verbatim>\<open><u|>\<close>; the text
  before it and the text after it are transformed on their own.
\<close>

theorem markdown_empty_label:
  assumes "is_url u" and "scan_reaches pre (''[]('' @ u @ '')'' @ post)"
  shows "markdownToSlackMrkdwn (pre @ ''[]('' @ u @ '')'' @ post) =
           markdownToSlackMrkdwn pre @ ''<'' @ u @ ''|>'' @ markdownToSlackMrkdwn post"
proof -
  have "is_label []" by (simp add: is_label_def)
  from md_link [OF this assms(1), of post]
  have "markdownToSlackMrkdwn (''[]('' @ u @ '')'' @ post) = ''<'' @ u @ ''|>'' @ markdownToSlackMrkdwn post"
    by (simp add: link_text_def slack_link_def)
  with md_scan_reaches [OF assms(2)] show ?thesis by simp
qed

text \<open>The witness has a complete link before the occurrence.\<close>

theorem markdown_empty_label_witness:
  "is_url ''https://example.com/a'' \<and>
   scan_reaches ''[a](http://x) '' (''[]('' @ ''https://example.com/a'' @ '')'' @ ''!'') \<and>
   markdownToSlackMrkdwn ''[a](http://x) '' = ''<http://x|a> '' \<and>
   markdownToSlackMrkdwn ''[a](http://x) [](https://example.com/a)!'' =
     ''<http://x|a> <https://example.com/a|>!''"
proof -
  have u: "is_url ''http://x''"
    unfolding is_url_def by (rule exI [of _ "''x''"]) simp
  have "scan_reaches '' '' (''[]('' @ ''https://example.com/a'' @ '')'' @ ''!'')"
    by (rule no_bracket_scan_reaches) simp
  then have "scan_reaches (link_text ''a'' ''http://x'' @ '' '')
               (''[]('' @ ''https://example.com/a'' @ '')'' @ ''!'')"
    by (intro scan_reaches.past_link u) (simp_all add: is_label_def)
  then have n: "scan_reaches ''[a](http://x) '' (''[]('' @ ''https://example.com/a'' @ '')'' @ ''!'')"
    by (simp add: link_text_def)
  have p: "markdownToSlackMrkdwn ''[a](http://x) '' = ''<http://x|a> ''" by (simp add: md_eval)
  have e: "markdownToSlackMrkdwn ''!'' = ''!''" by (simp add: md_eval)
  from markdown_empty_label [OF is_url_example n] n is_url_example p e
  show ?thesis by simp
qed

text \<open>
  For the bare scheme the claim as stated fails: \<^verbatim>\<open>https://\<close> begins with \<^verbatim>\<open>https://\<close> and
  has no \<^verbatim>\<open>)\<close>, and \<^verbatim>\<open>[](https://)\<close> is not rewritten. And an occurrence inside a link that
  started earlier goes with that link: in \<^verbatim>\<open>[x[](http://a)\<close> the label is \<^verbatim>\<open>x[\<close>.
\<close>

theorem markdown_empty_label_counterexample:
  "is_url_wide ''https://'' \<and> CHR '')'' \<notin> set ''https://'' \<and>
   markdownToSlackMrkdwn ''[](https://)'' = ''[](https://)'' \<and>
   markdownToSlackMrkdwn ''[](https://)'' \<noteq> ''<https://|>'' \<and>
   markdownToSlackMrkdwn ''[x[](http://a)'' = ''<http://a|x[>'' \<and>
   markdownToSlackMrkdwn ''[x[](http://a)'' \<noteq> ''[x<http://a|>''"
  using is_url_wide_https by (simp add: md_eval)


section \<open>The claims about the handlers\<close>

text \<open>
  C4. When the handler has issued its call and \<^verbatim>\<open>fetch\<close> rejects, the handler returns a
  response and no error escapes: the richer variant answers 503 with category
  \<^verbatim>\<open>service_unavailable\<close> and code \<^verbatim>\<open>slack_unavailable\<close>, the plain variant 502 with the
  error's message in \<^verbatim>\<open>details\<close>.
\<close>

theorem transport_failure:
  "(calls (handler_rich rt req) = [c] \<and> fetch rt c = Rejects err \<longrightarrow>
      outcome (handler_rich rt req) =
        Returns \<lparr>resp_status = 503, resp_headers = JSON_HEADERS,
                 resp_body = [(''category'', JStr ''service_unavailable''),
                              (''code'', JStr ''slack_unavailable''),
                              (''message'', JStr ''Could not reach Slack'')]\<rparr>) \<and>
   (calls (handler_plain rt req) = [c] \<and> fetch rt c = Rejects err \<longrightarrow>
      outcome (handler_plain rt req) =
        Returns \<lparr>resp_status = 502, resp_headers = JSON_HEADERS,
                 resp_body = [(''error'', JStr ''Failed to reach Slack API''),
                              (''details'', JStr (err_message err))]\<rparr>)"
  by (simp add: rich_called(1) plain_called(1) after_fetch_defs response_defs)

theorem transport_failure_witness:
  "calls (handler_rich (sample_runtime (Rejects (JsError ''TypeError'' ''fetch failed''))) sample_request)
     = [sample_call] \<and>
   fetch (sample_runtime (Rejects (JsError ''TypeError'' ''fetch failed''))) sample_call
     = Rejects (JsError ''TypeError'' ''fetch failed'') \<and>
   outcome (handler_rich (sample_runtime (Rejects (JsError ''TypeError'' ''fetch failed''))) sample_request) =
     Returns \<lparr>resp_status = 503, resp_headers = JSON_HEADERS,
              resp_body = [(''category'', JStr ''service_unavailable''),
                           (''code'', JStr ''slack_unavailable''),
                           (''message'', JStr ''Could not reach Slack'')]\<rparr> \<and>
   outcome (handler_plain (sample_runtime (Rejects (JsError ''TypeError'' ''fetch failed''))) sample_request) =
     Returns \<lparr>resp_status = 502, resp_headers = JSON_HEADERS,
              resp_body = [(''error'', JStr ''Failed to reach Slack API''),
                           (''details'', JStr ''fetch failed'')]\<rparr>"
proof -
  have f: "fetch (sample_runtime (Rejects (JsError ''TypeError'' ''fetch failed''))) sample_call
     = Rejects (JsError ''TypeError'' ''fetch failed'')"
    by (simp add: sample_runtime_def)
  from transport_failure
         [of "sample_runtime (Rejects (JsError ''TypeError'' ''fetch failed''))" sample_request
             sample_call "JsError ''TypeError'' ''fetch failed''"]
       f sample_calls_rich sample_calls_plain
  show ?thesis by simp
qed

text \<open>
  C3. When the handler has issued its call and Slack answers with a status of 500 or
  more and a body that parses, the richer variant answers 503 with category
  \<^verbatim>\<open>service_unavailable\<close> and code \<^verbatim>\<open>slack_unavailable\<close> whatever the body holds. The plain
  variant does not look at the status: its answer is a function of the body alone,
  the success envelope when \<^verbatim>\<open>ok\<close> is truthy and the 500 error otherwise.
\<close>

theorem slack_status_5xx:
  "(calls (handler_rich rt req) = [c] \<and> fetch rt c = Resolves r \<and> slack_json r = Inr res \<and>
    500 \<le> slack_status r \<longrightarrow>
      outcome (handler_rich rt req) =
        Returns \<lparr>resp_status = 503, resp_headers = JSON_HEADERS,
                 resp_body = [(''category'', JStr ''service_unavailable''),
                              (''code'', JStr ''slack_unavailable''),
                              (''message'', JStr ''Slack API is unavailable'')]\<rparr>) \<and>
   (calls (handler_plain rt req) = [c] \<and> fetch rt c = Resolves r \<and> slack_json r = Inr res \<and>
    res \<noteq> JNull \<longrightarrow>
      outcome (handler_plain rt req) =
        Returns (if truthy_opt (get_property res ''ok'')
                 then success_response (channel_name req) res
                 else json_response 500
                        [(''error'', str ''Slack API error''),
                         (''slack_error'', of_json (get_property res ''error''))]))"
  by (simp add: rich_called(1) plain_called(1) after_fetch_defs response_defs)

theorem slack_status_5xx_witness:
  "calls (handler_rich (sample_runtime unavailable_answer) sample_request) = [sample_call] \<and>
   calls (handler_plain (sample_runtime unavailable_answer) sample_request) = [sample_call] \<and>
   fetch (sample_runtime unavailable_answer) sample_call =
     Resolves \<lparr>slack_status = 503, slack_json = Inr slack_ok_result\<rparr> \<and>
   slack_ok_result \<noteq> JNull \<and> truthy_opt (get_property slack_ok_result ''ok'') \<and>
   outcome (handler_rich (sample_runtime unavailable_answer) sample_request) =
     Returns \<lparr>resp_status = 503, resp_headers = JSON_HEADERS,
              resp_body = [(''category'', JStr ''service_unavailable''),
                           (''code'', JStr ''slack_unavailable''),
                           (''message'', JStr ''Slack API is unavailable'')]\<rparr> \<and>
   outcome (handler_plain (sample_runtime unavailable_answer) sample_request) =
     Returns \<lparr>resp_status = 200, resp_headers = JSON_HEADERS,
              resp_body = [(''status'', JStr ''ok''), (''channel'', JStr ''general''),
                           (''ts'', JStr ''1234.5678'')]\<rparr>"
proof -
  have f: "fetch (sample_runtime unavailable_answer) sample_call =
     Resolves \<lparr>slack_status = 503, slack_json = Inr slack_ok_result\<rparr>"
    by (simp add: sample_fetch unavailable_answer_def)
  have r: "slack_ok_result \<noteq> JNull \<and> truthy_opt (get_property slack_ok_result ''ok'')"
    by (simp add: slack_ok_result_def)
  from slack_status_5xx
         [of "sample_runtime unavailable_answer" sample_request sample_call
             "\<lparr>slack_status = 503, slack_json = Inr slack_ok_result\<rparr>" slack_ok_result]
       f r sample_channel_name sample_calls_rich sample_calls_plain
  show ?thesis by (simp add: response_defs slack_ok_result_def)
qed




text \<open>
  C6, as amended. Without a channel identifier (absent or empty) the richer variant
  answers 400 with category \<^verbatim>\<open>client_error\<close> and code \<^verbatim>\<open>missing_channel\<close>, the plain variant
  400 with the body \<^verbatim>\<open>{error: "Missing channel_name"}\<close>, which has no code; neither depends
  on what the body would parse to, and no call is issued.
\<close>

theorem missing_channel:
  assumes "\<not> truthy_string (channel_name req)"
  shows "handler_rich rt req =
           \<lparr>outcome = Returns \<lparr>resp_status = 400, resp_headers = JSON_HEADERS,
                                resp_body = [(''category'', JStr ''client_error''),
                                             (''code'', JStr ''missing_channel''),
                                             (''message'', JStr ''Missing channel_name'')]\<rparr>,
            calls = []\<rparr> \<and>
         handler_plain rt req =
           \<lparr>outcome = Returns \<lparr>resp_status = 400, resp_headers = JSON_HEADERS,
                                resp_body = [(''error'', JStr ''Missing channel_name'')]\<rparr>,
            calls = []\<rparr> \<and>
         handler_rich rt (req\<lparr>request_json := j\<rparr>) = handler_rich rt req \<and>
         handler_plain rt (req\<lparr>request_json := j\<rparr>) = handler_plain rt req"
  using assms by (simp add: handler_rich_def handler_plain_def channel_name_def finish_def response_defs)

theorem missing_channel_witness:
  "\<not> truthy_string (channel_name no_channel_request) \<and>
   handler_rich (sample_runtime ok_answer) no_channel_request =
     \<lparr>outcome = Returns \<lparr>resp_status = 400, resp_headers = JSON_HEADERS,
                          resp_body = [(''category'', JStr ''client_error''),
                                       (''code'', JStr ''missing_channel''),
                                       (''message'', JStr ''Missing channel_name'')]\<rparr>,
      calls = []\<rparr> \<and>
   handler_plain (sample_runtime ok_answer) no_channel_request =
     \<lparr>outcome = Returns \<lparr>resp_status = 400, resp_headers = JSON_HEADERS,
                          resp_body = [(''error'', JStr ''Missing channel_name'')]\<rparr>,
      calls = []\<rparr>"
proof -
  have h: "\<not> truthy_string (channel_name no_channel_request)"
    by (simp add: channel_name_def no_channel_request_def)
  from missing_channel [OF h, of "sample_runtime ok_answer"] h show ?thesis by simp
qed

text \<open>The response of the plain variant carries no \<^verbatim>\<open>code\<close> member.\<close>

theorem missing_channel_plain_counterexample:
  "\<not> truthy_string (channel_name no_channel_request) \<and>
   response_status (handler_plain (sample_runtime ok_answer) no_channel_request) = Some 400 \<and>
   response_code (handler_plain (sample_runtime ok_answer) no_channel_request) = None \<and>
   response_code (handler_plain (sample_runtime ok_answer) no_channel_request)
     \<noteq> Some (JStr ''missing_channel'')"
  by (simp add: handler_plain_def channel_name_def no_channel_request_def finish_def
        response_defs response_code_def response_status_def)

text \<open>
  C7, as amended. With a channel and a body that parses but whose \<^verbatim>\<open>message\<close> is falsy
  (absent, the empty string, \<^verbatim>\<open>null\<close>, \<^verbatim>\<open>0\<close> or \<^verbatim>\<open>false\<close>), the richer variant answers 400
  with category \<^verbatim>\<open>client_error\<close> and code \<^verbatim>\<open>missing_message\<close>, the plain variant 400 with the
  body \<^verbatim>\<open>{error: "Missing 'message' field"}\<close>, which has no code; no call is issued.
\<close>

theorem missing_message:
  assumes "truthy_string (channel_name req)" and "request_json req = Inr body"
    and "\<not> truthy_opt (optional_property body ''message'')"
  shows "handler_rich rt req =
           \<lparr>outcome = Returns \<lparr>resp_status = 400, resp_headers = JSON_HEADERS,
                                resp_body = [(''category'', JStr ''client_error''),
                                             (''code'', JStr ''missing_message''),
                                             (''message'', JStr ''Missing 'message' field'')]\<rparr>,
            calls = []\<rparr> \<and>
         handler_plain rt req =
           \<lparr>outcome = Returns \<lparr>resp_status = 400, resp_headers = JSON_HEADERS,
                                resp_body = [(''error'', JStr ''Missing 'message' field'')]\<rparr>,
            calls = []\<rparr> \<and>
         \<not> truthy_opt (optional_property (JObj []) ''message'') \<and>
         \<not> truthy_opt (optional_property (JObj [(''message'', JStr [])]) ''message'') \<and>
         \<not> truthy_opt (optional_property (JObj [(''message'', JNull)]) ''message'') \<and>
         \<not> truthy_opt (optional_property (JObj [(''message'', JNum (Finite 0))]) ''message'') \<and>
         \<not> truthy_opt (optional_property (JObj [(''message'', JBool False)]) ''message'')"
  using assms by (simp add: handler_rich_def handler_plain_def finish_def response_defs
      optional_property_def)

theorem missing_message_witness:
  "truthy_string (channel_name (request_with_body (JObj [(''message'', JNum (Finite 0))]))) \<and>
   request_json (request_with_body (JObj [(''message'', JNum (Finite 0))])) =
     Inr (JObj [(''message'', JNum (Finite 0))]) \<and>
   \<not> truthy_opt (optional_property (JObj [(''message'', JNum (Finite 0))]) ''message'') \<and>
   handler_rich (sample_runtime ok_answer) (request_with_body (JObj [(''message'', JNum (Finite 0))])) =
     \<lparr>outcome = Returns \<lparr>resp_status = 400, resp_headers = JSON_HEADERS,
                          resp_body = [(''category'', JStr ''client_error''),
                                       (''code'', JStr ''missing_message''),
                                       (''message'', JStr ''Missing 'message' field'')]\<rparr>,
      calls = []\<rparr> \<and>
   handler_plain (sample_runtime ok_answer) (request_with_body (JObj [(''message'', JNum (Finite 0))])) =
     \<lparr>outcome = Returns \<lparr>resp_status = 400, resp_headers = JSON_HEADERS,
                          resp_body = [(''error'', JStr ''Missing 'message' field'')]\<rparr>,
      calls = []\<rparr>"
proof -
  have c: "truthy_string (channel_name (request_with_body (JObj [(''message'', JNum (Finite 0))])))"
    by (simp add: channel_name_def request_with_body_def)
  have b: "request_json (request_with_body (JObj [(''message'', JNum (Finite 0))])) =
     Inr (JObj [(''message'', JNum (Finite 0))])"
    by (simp add: request_with_body_def)
  have m: "\<not> truthy_opt (optional_property (JObj [(''message'', JNum (Finite 0))]) ''message'')"
    by (simp add: optional_property_def)
  from missing_message [OF c b m, of "sample_runtime ok_answer"] c b m show ?thesis by simp
qed

text \<open>The response of the plain variant to an empty message carries no \<^verbatim>\<open>code\<close> member.\<close>

theorem missing_message_plain_counterexample:
  "truthy_string (channel_name (request_with_body (JObj [(''message'', JStr [])]))) \<and>
   request_json (request_with_body (JObj [(''message'', JStr [])])) = Inr (JObj [(''message'', JStr [])]) \<and>
   response_status (handler_plain (sample_runtime ok_answer) (request_with_body (JObj [(''message'', JStr [])])))
     = Some 400 \<and>
   response_code (handler_plain (sample_runtime ok_answer) (request_with_body (JObj [(''message'', JStr [])])))
     = None \<and>
   response_code (handler_plain (sample_runtime ok_answer) (request_with_body (JObj [(''message'', JStr [])])))
     \<noteq> Some (JStr ''missing_message'')"
  by (simp add: handler_plain_def channel_name_def request_with_body_def finish_def
        optional_property_def response_defs response_code_def response_status_def)

text \<open>
  C8, as amended. For a request with a channel, a body that parses and a truthy
  message, when the bot token is unset or empty the richer variant answers 500 with
  category \<^verbatim>\<open>internal_error\<close> and code \<^verbatim>\<open>config_error\<close>, the plain variant 500 with the body
  \<^verbatim>\<open>{error: "SLACK_BOT_TOKEN not configured"}\<close>, which has no code; no call is issued.
\<close>

theorem missing_token:
  assumes "truthy_string (channel_name req)" and "request_json req = Inr body"
    and "truthy_opt (optional_property body ''message'')"
    and "\<not> truthy_string (SLACK_BOT_TOKEN rt)"
  shows "handler_rich rt req =
           \<lparr>outcome = Returns \<lparr>resp_status = 500, resp_headers = JSON_HEADERS,
                                resp_body = [(''category'', JStr ''internal_error''),
                                             (''code'', JStr ''config_error''),
                                             (''message'', JStr ''SLACK_BOT_TOKEN not configured'')]\<rparr>,
            calls = []\<rparr> \<and>
         handler_plain rt req =
           \<lparr>outcome = Returns \<lparr>resp_status = 500, resp_headers = JSON_HEADERS,
                                resp_body = [(''error'', JStr ''SLACK_BOT_TOKEN not configured'')]\<rparr>,
            calls = []\<rparr>"
  using assms by (simp add: handler_rich_def handler_plain_def finish_def response_defs)

theorem missing_token_witness:
  "truthy_string (channel_name sample_request) \<and>
   request_json sample_request = Inr (JObj [(''message'', JStr ''See [docs](https://example.com/a) now'')]) \<and>
   truthy_opt (optional_property (JObj [(''message'', JStr ''See [docs](https://example.com/a) now'')]) ''message'') \<and>
   \<not> truthy_string (SLACK_BOT_TOKEN ((sample_runtime ok_answer)\<lparr>SLACK_BOT_TOKEN := Some []\<rparr>)) \<and>
   handler_rich ((sample_runtime ok_answer)\<lparr>SLACK_BOT_TOKEN := Some []\<rparr>) sample_request =
     \<lparr>outcome = Returns \<lparr>resp_status = 500, resp_headers = JSON_HEADERS,
                          resp_body = [(''category'', JStr ''internal_error''),
                                       (''code'', JStr ''config_error''),
                                       (''message'', JStr ''SLACK_BOT_TOKEN not configured'')]\<rparr>,
      calls = []\<rparr> \<and>
   handler_plain ((sample_runtime ok_answer)\<lparr>SLACK_BOT_TOKEN := Some []\<rparr>) sample_request =
     \<lparr>outcome = Returns \<lparr>resp_status = 500, resp_headers = JSON_HEADERS,
                          resp_body = [(''error'', JStr ''SLACK_BOT_TOKEN not configured'')]\<rparr>,
      calls = []\<rparr>"
proof -
  have c: "truthy_string (channel_name sample_request)"
    by (simp add: sample_channel_name)
  have b: "request_json sample_request =
      Inr (JObj [(''message'', JStr ''See [docs](https://example.com/a) now'')])"
    by (simp add: sample_request_def)
  have m: "truthy_opt (optional_property
      (JObj [(''message'', JStr ''See [docs](https://example.com/a) now'')]) ''message'')"
    by (simp add: optional_property_def)
  have t: "\<not> truthy_string (SLACK_BOT_TOKEN ((sample_runtime ok_answer)\<lparr>SLACK_BOT_TOKEN := Some []\<rparr>))"
    by simp
  from missing_token [OF c b m t] c b m t show ?thesis by simp
qed

text \<open>Without a token the response of the plain variant carries no \<^verbatim>\<open>code\<close> member.\<close>

theorem missing_token_plain_counterexample:
  "SLACK_BOT_TOKEN ((sample_runtime ok_answer)\<lparr>SLACK_BOT_TOKEN := None\<rparr>) = None \<and>
   response_status (handler_plain ((sample_runtime ok_answer)\<lparr>SLACK_BOT_TOKEN := None\<rparr>) sample_request)
     = Some 500 \<and>
   response_code (handler_plain ((sample_runtime ok_answer)\<lparr>SLACK_BOT_TOKEN := None\<rparr>) sample_request)
     = None \<and>
   response_code (handler_plain ((sample_runtime ok_answer)\<lparr>SLACK_BOT_TOKEN := None\<rparr>) sample_request)
     \<noteq> Some (JStr ''config_error'')"
  by (simp add: handler_plain_def channel_name_def sample_request_def finish_def
        optional_property_def response_defs response_code_def response_status_def)


section \<open>The error mapper\<close>

text \<open>
  The rows of the table, and the fallback for a code that is neither in the table
  nor the key of a member of \<^verbatim>\<open>Object.prototype\<close>; an absent code arrives as \<^verbatim>\<open>unknown\<close>.
\<close>

lemma mapSlackError_rows:
  "mapSlackError nts (JStr ''channel_not_found'') =
     Inr \<lparr>mapped_status = 400, mapped_category = str ''client_error'',
      mapped_code = str ''channel_not_found'', mapped_message = str ''Channel not found''\<rparr>"
  "mapSlackError nts (JStr ''not_in_channel'') =
     Inr \<lparr>mapped_status = 400, mapped_category = str ''client_error'',
      mapped_code = str ''not_in_channel'', mapped_message = str ''Bot is not in that channel''\<rparr>"
  "mapSlackError nts (JStr ''invalid_auth'') =
     Inr \<lparr>mapped_status = 403, mapped_category = str ''forbidden'',
      mapped_code = str ''invalid_auth'', mapped_message = str ''Invalid Slack token''\<rparr>"
  "mapSlackError nts (JStr ''not_authed'') =
     Inr \<lparr>mapped_status = 403, mapped_category = str ''forbidden'',
      mapped_code = str ''not_authed'', mapped_message = str ''Not authenticated''\<rparr>"
  "mapSlackError nts (JStr ''token_revoked'') =
     Inr \<lparr>mapped_status = 403, mapped_category = str ''forbidden'',
      mapped_code = str ''token_revoked'', mapped_message = str ''Slack token revoked''\<rparr>"
  "mapSlackError nts (JStr ''account_inactive'') =
     Inr \<lparr>mapped_status = 403, mapped_category = str ''forbidden'',
      mapped_code = str ''account_inactive'', mapped_message = str ''Slack app inactive''\<rparr>"
  "mapSlackError nts (JStr ''missing_scope'') =
     Inr \<lparr>mapped_status = 403, mapped_category = str ''forbidden'',
      mapped_code = str ''missing_scope'', mapped_message = str ''Bot missing required scope''\<rparr>"
  "mapSlackError nts (JStr ''rate_limited'') =
     Inr \<lparr>mapped_status = 429, mapped_category = str ''rate_limited'',
      mapped_code = str ''rate_limited'', mapped_message = str ''Slack rate limit exceeded''\<rparr>"
  by (simp_all add: mapSlackError_def record_get_def clientErrors_def forbiddenErrors_def
        object_prototype_keys_def)

lemma mapSlackError_default:
  assumes "e \<notin> fst ` set clientErrors" "e \<notin> fst ` set forbiddenErrors" "e \<noteq> ''rate_limited''"
    and "e \<notin> set object_prototype_keys"
  shows "mapSlackError nts (JStr e) =
     Inr \<lparr>mapped_status = 500, mapped_category = str ''internal_error'',
      mapped_code = str ''slack_error'', mapped_message = str ''Slack API error''\<rparr>"
proof -
  have "map_of clientErrors e = None" "map_of forbiddenErrors e = None"
    using assms(1,2) by (simp_all add: map_of_eq_None_iff)
  with assms(3,4) show ?thesis
    by (simp add: mapSlackError_def record_get_def)
qed

lemma mapSlackError_unknown:
  "mapSlackError nts (JStr ''unknown'') =
     Inr \<lparr>mapped_status = 500, mapped_category = str ''internal_error'',
      mapped_code = str ''slack_error'', mapped_message = str ''Slack API error''\<rparr>"
  by (rule mapSlackError_default)
     (simp_all add: clientErrors_def forbiddenErrors_def object_prototype_keys_def)

text \<open>
  A code that is an object with an own member \<^verbatim>\<open>toString\<close>, alone or inside an array, has
  no key: the lookup throws, and the error escapes the richer handler.
\<close>

lemma mapSlackError_no_key:
  "mapSlackError nts (JObj [(''toString'', JStr ''x'')]) =
     Inl (JsError ''TypeError'' ''Cannot convert object to primitive value'')"
  "mapSlackError nts (JArr [JStr ''a'', JObj [(''toString'', JNull)]]) =
     Inl (JsError ''TypeError'' ''Cannot convert object to primitive value'')"
  "mapSlackError nts (JArr [JStr ''channel_not_found'']) =
     Inr \<lparr>mapped_status = 400, mapped_category = str ''client_error'',
          mapped_code = Val (JArr [JStr ''channel_not_found'']),
          mapped_message = str ''Channel not found''\<rparr>"
  by (simp_all add: mapSlackError_def record_get_def clientErrors_def)

text \<open>
  C1 fails on the code for a code that is the key of an inherited member: the lookup
  \<^verbatim>\<open>clientErrors[slackError]\<close> finds \<^verbatim>\<open>Object.prototype.constructor\<close>, which is truthy, and
  the mapper answers 400 \<^verbatim>\<open>client_error\<close> with the code itself and a function for a
  message, which \<^verbatim>\<open>JSON.stringify\<close> leaves out.
\<close>

theorem mapSlackError_inherited_member:
  "mapSlackError nts (JStr ''constructor'') =
     Inr \<lparr>mapped_status = 400, mapped_category = str ''client_error'',
      mapped_code = str ''constructor'', mapped_message = Builtin ''constructor''\<rparr> \<and>
   outcome (handler_rich (sample_runtime (slack_error_answer ''constructor'')) sample_request) =
     Returns \<lparr>resp_status = 400, resp_headers = JSON_HEADERS,
              resp_body = [(''category'', JStr ''client_error''),
                           (''code'', JStr ''constructor'')]\<rparr>"
proof -
  have m: "mapSlackError nts (JStr ''constructor'') =
     Inr \<lparr>mapped_status = 400, mapped_category = str ''client_error'',
      mapped_code = str ''constructor'', mapped_message = Builtin ''constructor''\<rparr>" for nts
    by (simp add: mapSlackError_def record_get_def clientErrors_def object_prototype_keys_def)
  have "outcome (handler_rich (sample_runtime (slack_error_answer ''constructor'')) sample_request) =
     Returns \<lparr>resp_status = 400, resp_headers = JSON_HEADERS,
              resp_body = [(''category'', JStr ''client_error''),
                           (''code'', JStr ''constructor'')]\<rparr>"
    by (simp add: rich_called(1) [OF sample_calls_rich] sample_fetch slack_error_answer_def
          after_fetch_defs m response_defs)
  with m show ?thesis by simp
qed

end
